theory Spec2Isabelle
  imports Complex_Main "HOL-Library.Sublist"
begin

section \<open>Calendar dates and their text form\<close>

text \<open>
  The application keeps the date of an event as text: the form hands a
  \<^verbatim>\<open>datetime.date\<close> to \<^verbatim>\<open>str\<close> and stores the result, and the loader turns the
  column back into timestamps with \<^verbatim>\<open>pd.to_datetime(..., errors='coerce')\<close>.
  A \<^verbatim>\<open>datetime.date\<close> is a year between 1 and 9999, a month and a day of that
  month.
\<close>

record date =
  year :: int
  month :: int
  day :: int

definition is_leap :: "int \<Rightarrow> bool" where
  "is_leap y = (y mod 4 = 0 \<and> (y mod 100 \<noteq> 0 \<or> y mod 400 = 0))"

definition days_in_month :: "int \<Rightarrow> int \<Rightarrow> int" where
  "days_in_month y m =
     (if m = 2 then (if is_leap y then 29 else 28)
      else if m = 4 \<or> m = 6 \<or> m = 9 \<or> m = 11 then 30 else 31)"

definition valid_date :: "date \<Rightarrow> bool" where
  "valid_date d =
     (1 \<le> year d \<and> year d \<le> 9999 \<and> 1 \<le> month d \<and> month d \<le> 12 \<and>
      1 \<le> day d \<and> day d \<le> days_in_month (year d) (month d))"

definition digit_char :: "nat \<Rightarrow> char" where
  "digit_char n = char_of (48 + n)"

definition digit_val :: "char \<Rightarrow> nat" where
  "digit_val c = of_char c - 48"

definition is_digit :: "char \<Rightarrow> bool" where
  "is_digit c = (48 \<le> (of_char c :: nat) \<and> (of_char c :: nat) \<le> 57)"

text \<open>\<^verbatim>\<open>str(fecha)\<close> of a \<^verbatim>\<open>datetime.date\<close>: the ISO form \<^verbatim>\<open>%04d-%02d-%02d\<close>.\<close>

definition str_date :: "date \<Rightarrow> string" where
  "str_date d =
     (let y = nat (year d); m = nat (month d); dd = nat (day d)
      in [digit_char (y div 1000 mod 10), digit_char (y div 100 mod 10),
          digit_char (y div 10 mod 10), digit_char (y mod 10), CHR ''-'',
          digit_char (m div 10 mod 10), digit_char (m mod 10), CHR ''-'',
          digit_char (dd div 10 mod 10), digit_char (dd mod 10)])"

definition num_of :: "string \<Rightarrow> nat" where
  "num_of cs = foldl (\<lambda>a c. 10 * a + digit_val c) 0 cs"

definition parse_iso :: "string \<Rightarrow> date option" where
  "parse_iso s =
     (if length s = 10 \<and> s ! 4 = CHR ''-'' \<and> s ! 7 = CHR ''-'' \<and>
         list_all is_digit (take 4 s @ take 2 (drop 5 s) @ drop 8 s)
      then (let d = \<lparr>year = int (num_of (take 4 s)),
                      month = int (num_of (take 2 (drop 5 s))),
                      day = int (num_of (drop 8 s))\<rparr>
            in if valid_date d then Some d else None)
      else None)"

text \<open>
  A nanosecond timestamp holds the midnights from 1677-09-22 to 2262-04-11.
\<close>

definition ts_in_bounds :: "date \<Rightarrow> bool" where
  "ts_in_bounds d =
     ((1677 < year d \<or> (year d = 1677 \<and> (9 < month d \<or> (month d = 9 \<and> 22 \<le> day d)))) \<and>
      (year d < 2262 \<or> (year d = 2262 \<and> (month d < 4 \<or> (month d = 4 \<and> day d \<le> 11)))))"

text \<open>
  \<^verbatim>\<open>pd.to_datetime(col, errors='coerce')\<close> on the date column; a cell of the
  result is \<open>None\<close> for \<^verbatim>\<open>NaT\<close>. \<open>iso_cell\<close> is a cell read in the ISO layout:
  the date when the text is an ISO calendar date that a nanosecond timestamp
  holds, and \<^verbatim>\<open>NaT\<close> otherwise, since \<^verbatim>\<open>errors='coerce'\<close> turns a date out of
  the range into \<^verbatim>\<open>NaT\<close>. The library settles the layout for the column as a
  whole (from its first cell in recent versions, cell by cell in older ones), so
  the model fixes the result only for a column in which every cell is an ISO
  calendar date, where the versions agree and which is what the form writes. On
  any other column the cells are the parameter \<open>otros\<close>, given the column and
  the position of the cell, so that nothing proved below depends on what the
  library makes of mixed or foreign layouts.
\<close>

definition iso_cell :: "string \<Rightarrow> date option" where
  "iso_cell c =
     (case parse_iso c of
        Some d \<Rightarrow> if ts_in_bounds d then Some d else None
      | None \<Rightarrow> None)"

definition es_iso :: "string \<Rightarrow> bool" where
  "es_iso c = (parse_iso c \<noteq> None)"

definition to_datetime :: "(string list \<Rightarrow> nat \<Rightarrow> date option) \<Rightarrow> string list \<Rightarrow> date option list" where
  "to_datetime otros col =
     (if list_all es_iso col then map iso_cell col
      else map (otros col) [0..<length col])"

section \<open>The store\<close>

text \<open>
  One row of the table \<^verbatim>\<open>sucesos\<close> created by \<^verbatim>\<open>crear_db\<close>. No column is
  declared \<^verbatim>\<open>NOT NULL\<close>; the columns the specification calls optional are
  options here (\<open>None\<close> is SQL \<^verbatim>\<open>NULL\<close>). The type parameter is the type of the
  date column: text in the table, a parsed timestamp once loaded.
\<close>

record 'f suceso =
  id_suceso :: int
  fecha :: 'f
  tipo :: string
  subtipo :: "string option"
  lugar :: "string option"
  lat :: "real option"
  lon :: "real option"
  gravedad :: int
  impacto :: "string option"
  fuente :: "string option"
  notas :: "string option"

text \<open>
  The database file: the rows in rowid order and the counter that SQLite keeps in
  \<^verbatim>\<open>sqlite_sequence\<close> for an \<^verbatim>\<open>AUTOINCREMENT\<close> key.
\<close>

record db =
  sucesos :: "string suceso list"
  seq :: int

datatype error = OverflowError | DatabaseFull | TypeError | StreamlitAPIException

definition MAX_ROWID :: int where
  "MAX_ROWID = 9223372036854775807"

text \<open>\<^verbatim>\<open>CREATE TABLE IF NOT EXISTS\<close>: a fresh file gets the empty table.\<close>

definition crear_db :: "db option \<Rightarrow> db" where
  "crear_db f = (case f of None \<Rightarrow> \<lparr>sucesos = [], seq = 0\<rparr> | Some d \<Rightarrow> d)"

definition largest_rowid :: "db \<Rightarrow> int" where
  "largest_rowid d = foldr max (map id_suceso (sucesos d)) (seq d)"

text \<open>
  \<^verbatim>\<open>agregar_suceso\<close>: one \<^verbatim>\<open>INSERT\<close> of the ten values as given, no check of
  any of them. The driver refuses an integer that does not fit 64 bits before
  the statement runs; SQLite gives the row the key one above the largest key the
  table ever held and refuses the insert when that key is the largest possible.
\<close>

definition agregar_suceso ::
  "string \<Rightarrow> string \<Rightarrow> string option \<Rightarrow> string option \<Rightarrow> real option \<Rightarrow> real option \<Rightarrow>
   int \<Rightarrow> string option \<Rightarrow> string option \<Rightarrow> string option \<Rightarrow> db \<Rightarrow> error + db" where
  "agregar_suceso fecha' tipo' subtipo' lugar' lat' lon' gravedad' impacto' fuente' notas' d =
     (if gravedad' < - (2 ^ 63) \<or> 2 ^ 63 \<le> gravedad' then Inl OverflowError
      else if MAX_ROWID \<le> largest_rowid d then Inl DatabaseFull
      else Inr \<lparr>sucesos = sucesos d @
                   [\<lparr>id_suceso = largest_rowid d + 1, fecha = fecha', tipo = tipo',
                     subtipo = subtipo', lugar = lugar', lat = lat', lon = lon',
                     gravedad = gravedad', impacto = impacto', fuente = fuente',
                     notas = notas'\<rparr>],
                seq = largest_rowid d + 1\<rparr>)"

text \<open>
  \<^verbatim>\<open>cargar_datos\<close>: \<^verbatim>\<open>SELECT *\<close>, then, when the frame has rows, the date
  column replaced by its parsed form. \<open>cargar_fila\<close> is a row with its date cell
  replaced.
\<close>

definition cargar_fila :: "string suceso \<Rightarrow> date option \<Rightarrow> date option suceso" where
  "cargar_fila r f =
     \<lparr>id_suceso = id_suceso r, fecha = f, tipo = tipo r,
      subtipo = subtipo r, lugar = lugar r, lat = lat r, lon = lon r,
      gravedad = gravedad r, impacto = impacto r, fuente = fuente r, notas = notas r\<rparr>"

definition cargar_datos :: "(string list \<Rightarrow> nat \<Rightarrow> date option) \<Rightarrow> db \<Rightarrow> date option suceso list" where
  "cargar_datos otros d =
     (let df = sucesos d
      in if df \<noteq> [] then map2 cargar_fila df (to_datetime otros (map fecha df)) else [])"

text \<open>
  The date column of a store that only the form has written to: every cell is
  the text of a calendar date.
\<close>

definition fechas_iso :: "db \<Rightarrow> bool" where
  "fechas_iso d = list_all es_iso (map fecha (sucesos d))"

section \<open>Numbers as text\<close>

text \<open>
  Python's \<^verbatim>\<open>float\<close> is modelled by \<open>real\<close>: \<^verbatim>\<open>n / 5\<close>, \<^verbatim>\<open>exp\<close> and \<^verbatim>\<open>p*100\<close>
  are exact here. \<^verbatim>\<open>round(x, 2)\<close> and the format \<^verbatim>\<open>.1f\<close> round to the nearest
  multiple of the last digit kept, ties to the even one. The value a double
  computation gives differs from the exact one by a rounding error; where a
  property could depend on that error it is stated below for every value within
  \<open>1 / 10 ^ 9\<close> of the exact one (\<open>cerca\<close>), which covers the doubles of the code
  as well as the reals of the model.
\<close>

fun str_nat :: "nat \<Rightarrow> string" where
  "str_nat n = (if n < 10 then [digit_char n] else str_nat (n div 10) @ [digit_char (n mod 10)])"

declare str_nat.simps [simp del]

definition str_int :: "int \<Rightarrow> string" where
  "str_int i = (if i < 0 then CHR ''-'' # str_nat (nat (- i)) else str_nat (nat i))"

definition round_half_even :: "real \<Rightarrow> int" where
  "round_half_even x =
     (let f = \<lfloor>x\<rfloor>; r = x - of_int f
      in if r < 1 / 2 then f else if 1 / 2 < r then f + 1 else if even f then f else f + 1)"

definition py_round2 :: "real \<Rightarrow> real" where
  "py_round2 x = of_int (round_half_even (x * 100)) / 100"

definition fmt_1f :: "real \<Rightarrow> string" where
  "fmt_1f x =
     (let t = nat (round_half_even (\<bar>x\<bar> * 10))
      in (if x < 0 then ''-'' else []) @ str_nat (t div 10) @ ''.'' @ [digit_char (t mod 10)])"

section \<open>The probability estimator\<close>

definition probabilidad_poisson :: "real \<Rightarrow> real" where
  "probabilidad_poisson lmbda = 1 - exp (- lmbda)"

text \<open>
  \<open>cerca x n\<close>: \<open>x\<close> is a value computed for \<^verbatim>\<open>probabilidad_poisson(n / 5)\<close>, at
  most \<open>1 / 10 ^ 9\<close> away from the exact one. \<open>decimas x\<close> is the number of tenths of
  a percent that the format \<^verbatim>\<open>{p*100:.1f}\<close> shows for \<open>x\<close>.
\<close>

definition cerca :: "real \<Rightarrow> nat \<Rightarrow> bool" where
  "cerca x n = (\<bar>x - probabilidad_poisson (real n / 5)\<bar> \<le> 1 / 10 ^ 9)"

definition decimas :: "real \<Rightarrow> int" where
  "decimas x = round_half_even (x * 100 * 10)"

text \<open>
  \<^verbatim>\<open>Series.value_counts()\<close>: one entry per distinct value with the number of
  its occurrences, larger counts first. Values with equal counts are kept here in
  the order of their first occurrence; nothing proved below depends on how the
  library orders them.
\<close>

definition value_counts :: "string list \<Rightarrow> (string \<times> nat) list" where
  "value_counts xs =
     sort_key (\<lambda>(t, n). - int n) (map (\<lambda>t. (t, count_list xs t)) (rev (remdups (rev xs))))"

text \<open>The year of a timestamp cell; \<^verbatim>\<open>NaT\<close> has none, and compares false.\<close>

definition dt_year :: "date option \<Rightarrow> int option" where
  "dt_year f = map_option year f"

definition es_reciente :: "int \<Rightarrow> date option suceso \<Rightarrow> bool" where
  "es_reciente current_year r =
     (case dt_year (fecha r) of None \<Rightarrow> False | Some y \<Rightarrow> current_year - 4 \<le> y)"

record fila_resumen =
  Tipo :: string
  Eventos :: nat
  Promedio_anual :: real
  Probabilidad :: string

record tabla =
  columns :: "string list"
  filas :: "fila_resumen list"

text \<open>
  The four column names. The accented letters of the second and the fourth are
  written as their UTF-8 bytes.
\<close>

definition columnas_resumen :: "string list" where
  "columnas_resumen =
     [''Tipo'',
      ''Eventos '' @ [CHR 0xC3, CHR 0xBA] @ ''ltimos 5 a'' @ [CHR 0xC3, CHR 0xB1] @ ''os'',
      ''Promedio anual'',
      ''Probabilidad (al menos 1/a'' @ [CHR 0xC3, CHR 0xB1] @ ''o)'']"

text \<open>\<^verbatim>\<open>pd.DataFrame(data)\<close> of a list of rows: no rows, no columns.\<close>

definition DataFrame :: "fila_resumen list \<Rightarrow> tabla" where
  "DataFrame data = \<lparr>columns = (if data = [] then [] else columnas_resumen), filas = data\<rparr>"

text \<open>The body of the loop over \<^verbatim>\<open>conteo.items()\<close>.\<close>

definition fila_de :: "string \<times> nat \<Rightarrow> fila_resumen" where
  "fila_de tn =
     (case tn of (tipo', n) \<Rightarrow>
        (let avg = real n / 5; p = probabilidad_poisson avg
         in \<lparr>Tipo = tipo', Eventos = n, Promedio_anual = py_round2 avg,
             Probabilidad = fmt_1f (p * 100) @ ''%''\<rparr>))"

text \<open>
  \<^verbatim>\<open>resumen_probabilidades\<close>; the second argument is
  \<^verbatim>\<open>datetime.date.today().year\<close>.
\<close>

definition resumen_probabilidades :: "date option suceso list \<Rightarrow> int \<Rightarrow> tabla" where
  "resumen_probabilidades df current_year =
     (if df = [] then \<lparr>columns = columnas_resumen, filas = []\<rparr>
      else (let recent = filter (es_reciente current_year) df;
                conteo = value_counts (map tipo recent)
            in DataFrame (map fila_de conteo)))"

section \<open>The report filter\<close>

text \<open>
  The frame \<^verbatim>\<open>filtrado\<close> of the analysis tab. A year cell is \<open>None\<close> for
  \<^verbatim>\<open>NaT\<close>, which \<^verbatim>\<open>isin\<close> matches against a \<^verbatim>\<open>NaN\<close> among the selected years.
\<close>

definition filtrado ::
  "date option suceso list \<Rightarrow> string list \<Rightarrow> int option list \<Rightarrow> date option suceso list" where
  "filtrado df tipo_sel anio_sel =
     filter (\<lambda>r. tipo r \<in> set tipo_sel \<and> dt_year (fecha r) \<in> set anio_sel) df"

section \<open>The map\<close>

record marker =
  location :: "real \<times> real"
  radius :: int
  color :: string
  fill :: bool
  fill_opacity :: real
  popup :: string

text \<open>\<^verbatim>\<open>row['fecha'].date()\<close> inside the f-string; \<^verbatim>\<open>NaT.date()\<close> is \<^verbatim>\<open>NaT\<close>.\<close>

definition str_fecha :: "date option \<Rightarrow> string" where
  "str_fecha f = (case f of None \<Rightarrow> ''NaT'' | Some d \<Rightarrow> str_date d)"

definition str_opt :: "string option \<Rightarrow> string" where
  "str_opt v = (case v of None \<Rightarrow> ''None'' | Some s \<Rightarrow> s)"

definition popup_html :: "date option suceso \<Rightarrow> string \<Rightarrow> string" where
  "popup_html row imp =
     (let nl = CHR 0x0A # replicate 16 (CHR '' '')
      in nl @ ''<b>'' @ tipo row @ ''</b><br>'' @
         nl @ ''Fecha: '' @ str_fecha (fecha row) @ ''<br>'' @
         nl @ ''Lugar: '' @ str_opt (lugar row) @ ''<br>'' @
         nl @ ''Gravedad: '' @ str_int (gravedad row) @ ''<br>'' @
         nl @ ''Impacto: '' @ take 100 imp @ ''...'' @ nl)"

text \<open>
  One turn of the loop over \<^verbatim>\<open>df.iterrows()\<close>: nothing for a row that lacks a
  coordinate; otherwise the popup is built first, and slicing
  \<^verbatim>\<open>row['impacto'][:100]\<close> raises \<^verbatim>\<open>TypeError\<close> when the cell is \<^verbatim>\<open>None\<close>.
\<close>

definition marcador :: "date option suceso \<Rightarrow> real \<Rightarrow> real \<Rightarrow> string \<Rightarrow> marker" where
  "marcador row la lo imp =
     \<lparr>location = (la, lo), radius = 6 + gravedad row,
      color = (if 4 \<le> gravedad row then ''red'' else ''orange''),
      fill = True, fill_opacity = 7 / 10, popup = popup_html row imp\<rparr>"

definition render_row :: "date option suceso \<Rightarrow> error + marker option" where
  "render_row row =
     (case (lat row, lon row) of
        (Some la, Some lo) \<Rightarrow>
          (case impacto row of
             None \<Rightarrow> Inl TypeError
           | Some imp \<Rightarrow> Inr (Some (marcador row la lo imp)))
      | _ \<Rightarrow> Inr None)"

text \<open>The loop; \<open>mapa\<close> holds the markers added so far.\<close>

fun render_map :: "date option suceso list \<Rightarrow> marker list \<Rightarrow> error + marker list" where
  "render_map [] mapa = Inr mapa"
| "render_map (row # df) mapa =
     (case render_row row of
        Inl e \<Rightarrow> Inl e
      | Inr None \<Rightarrow> render_map df mapa
      | Inr (Some m) \<Rightarrow> render_map df (mapa @ [m]))"

text \<open>The map tab: a notice when the frame is empty, the map otherwise.\<close>

definition tab_mapa :: "date option suceso list \<Rightarrow> error + marker list option" where
  "tab_mapa df =
     (if df = [] then Inr None
      else (case render_map df [] of Inl e \<Rightarrow> Inl e | Inr ms \<Rightarrow> Inr (Some ms)))"

section \<open>The record-entry tab\<close>

text \<open>What the widgets of \<^verbatim>\<open>form_suceso\<close> return.\<close>

record formulario =
  f_fecha :: date
  f_tipo :: string
  f_subtipo :: string
  f_lugar :: string
  f_lat :: real
  f_lon :: real
  f_gravedad :: int
  f_impacto :: string
  f_fuente :: string
  f_notas :: string

text \<open>
  The values the widgets can return: \<^verbatim>\<open>date_input\<close> a calendar date,
  \<^verbatim>\<open>slider(..., 1, 5, 3)\<close> an integer from 1 to 5. The two \<^verbatim>\<open>number_input\<close>
  fields have no \<^verbatim>\<open>min_value\<close> or \<^verbatim>\<open>max_value\<close>, and the text fields take
  any text.
\<close>

definition form_ok :: "formulario \<Rightarrow> bool" where
  "form_ok f = (valid_date (f_fecha f) \<and> 1 \<le> f_gravedad f \<and> f_gravedad f \<le> 5)"

text \<open>Line 123: the call made when the form is submitted.\<close>

definition guardar :: "formulario \<Rightarrow> db \<Rightarrow> error + db" where
  "guardar f d =
     agregar_suceso (str_date (f_fecha f)) (f_tipo f) (Some (f_subtipo f)) (Some (f_lugar f))
       (Some (f_lat f)) (Some (f_lon f)) (f_gravedad f) (Some (f_impacto f))
       (Some (f_fuente f)) (Some (f_notas f)) d"

definition lower_char :: "char \<Rightarrow> char" where
  "lower_char c =
     (if 65 \<le> (of_char c :: nat) \<and> (of_char c :: nat) \<le> 90 then char_of (of_char c + 32 :: nat) else c)"

text \<open>
  Line 101: \<^verbatim>\<open>st.secrets.get("ALLOW_WRITE", "true").lower() == "true"\<close>; the
  argument is the secret, \<open>None\<close> when it is not set.
\<close>

definition allow_write :: "string option \<Rightarrow> bool" where
  "allow_write secret =
     (map lower_char (case secret of None \<Rightarrow> ''true'' | Some v \<Rightarrow> v) = ''true'')"

text \<open>
  \<^verbatim>\<open>st.form_submit_button\<close>: the first argument tells whether the call is made
  inside a \<^verbatim>\<open>with st.form(...)\<close> block (Streamlit raises outside one), the
  second is \<^verbatim>\<open>disabled\<close>, the third whether the user pressed the control in this
  run. A disabled control cannot be pressed.
\<close>

definition form_submit_button :: "bool \<Rightarrow> bool \<Rightarrow> bool \<Rightarrow> error + bool" where
  "form_submit_button in_form disabled pressed =
     (if in_form then Inr (pressed \<and> \<not> disabled) else Inl StreamlitAPIException)"

text \<open>
  What a run of the tab leaves: the submit controls put on the page (the source
  line of each call and its \<^verbatim>\<open>disabled\<close> flag) and the store, or the exception
  that ended the run.
\<close>

record pagina =
  botones :: "(nat \<times> bool) list"
  resultado :: "error + db"

text \<open>
  Lines 101 to 126, with the blocks as their indentation gives them: the form
  and everything down to line 124 is the body of \<^verbatim>\<open>if not allow_write:\<close>
  (line 102), and \<^verbatim>\<open>else:\<close> (line 125) belongs to that same \<^verbatim>\<open>if\<close>. The
  \<^verbatim>\<open>if allow_write:\<close> of line 120, inside the form, has no body: line 121 is
  indented less, which Python itself refuses (an \<^verbatim>\<open>IndentationError\<close>); the
  model gives that \<^verbatim>\<open>if\<close> the empty body. Lines 121 and 126 lie outside the
  form. The three booleans say which of the controls of lines 118, 121 and 126
  the user presses.
\<close>

definition tab_registro ::
  "string option \<Rightarrow> formulario \<Rightarrow> bool \<Rightarrow> bool \<Rightarrow> bool \<Rightarrow> db \<Rightarrow> pagina" where
  "tab_registro secret f p118 p121 p126 d =
     (if \<not> allow_write secret then
        (case form_submit_button True False p118 of
           Inl e \<Rightarrow> \<lparr>botones = [], resultado = Inl e\<rparr>
         | Inr submit \<Rightarrow>
             (case form_submit_button False False p121 of
                Inl e \<Rightarrow> \<lparr>botones = [(118, False)], resultado = Inl e\<rparr>
              | Inr submit' \<Rightarrow>
                  \<lparr>botones = [(118, False), (121, False)],
                   resultado = (if submit' then guardar f d else Inr d)\<rparr>))
      else
        (case form_submit_button False True p126 of
           Inl e \<Rightarrow> \<lparr>botones = [], resultado = Inl e\<rparr>
         | Inr _ \<Rightarrow> \<lparr>botones = [(126, True)], resultado = Inr d\<rparr>))"

section \<open>The window in the specification's words, and sample rows\<close>

text \<open>
  The specification counts a record when its date lies in the five-year window:
  the record has a date, and the year of that date is at least the current year
  minus 4.
\<close>

definition en_ventana :: "int \<Rightarrow> date option suceso \<Rightarrow> bool" where
  "en_ventana cy r = (case fecha r of None \<Rightarrow> False | Some d \<Rightarrow> cy - 4 \<le> year d)"

text \<open>A loaded row with the given key, year and category, used in the instances below.\<close>

definition fila_ej :: "int \<Rightarrow> int \<Rightarrow> string \<Rightarrow> date option suceso" where
  "fila_ej i y t =
     \<lparr>id_suceso = i, fecha = Some \<lparr>year = y, month = 6, day = 15\<rparr>, tipo = t,
      subtipo = Some ''crecida'', lugar = Some ''Torreon'', lat = Some (51 / 2),
      lon = Some (- 207 / 2), gravedad = 3, impacto = Some ''calles cerradas'',
      fuente = None, notas = None\<rparr>"

text \<open>A loaded frame with 39 records of one category and 40 of another.\<close>

definition df_muchos :: "date option suceso list" where
  "df_muchos =
     map (\<lambda>i. fila_ej (int i) 2025 ''Sismo'') [1..<40] @
     map (\<lambda>i. fila_ej (int i) 2026 ''Flood'') [40..<80]"

text \<open>A store with one row, written some time ago; two rows after it were deleted.\<close>

definition db_ej :: db where
  "db_ej =
     \<lparr>sucesos =
        [\<lparr>id_suceso = 4, fecha = ''2023-05-01'', tipo = ''Apagon'', subtipo = None,
          lugar = Some ''Centro'', lat = None, lon = None, gravedad = 2,
          impacto = Some ''sin luz'', fuente = None, notas = None\<rparr>],
      seq = 6\<rparr>"

text \<open>A filled form, and loaded rows with cells set to \<^verbatim>\<open>NULL\<close>.\<close>

definition form_ej :: formulario where
  "form_ej =
     \<lparr>f_fecha = \<lparr>year = 2024, month = 2, day = 29\<rparr>, f_tipo = ''Sismo'',
      f_subtipo = ''temblor'', f_lugar = ''Torreon'', f_lat = 51 / 2, f_lon = - 207 / 2,
      f_gravedad = 3, f_impacto = ''sin danos'', f_fuente = [], f_notas = []\<rparr>"

definition fila_sin_impacto :: "int \<Rightarrow> int \<Rightarrow> date option suceso" where
  "fila_sin_impacto i g = (fila_ej i 2025 ''Sismo'')\<lparr>gravedad := g, impacto := None\<rparr>"

definition fila_sin_coordenadas :: "int \<Rightarrow> date option suceso" where
  "fila_sin_coordenadas i =
     (fila_ej i 2025 ''Sismo'')\<lparr>lugar := None, lat := None, lon := None, impacto := None,
        fuente := None, notas := None\<rparr>"

section \<open>Properties\<close>

lemma digit_val_digit_char: "n < 10 \<Longrightarrow> digit_val (digit_char n) = n"
  by (simp add: digit_val_def digit_char_def)

lemma is_digit_digit_char: "n < 10 \<Longrightarrow> is_digit (digit_char n)"
  by (simp add: is_digit_def digit_char_def)

subsection \<open>The date survives the store\<close>

lemma num_of4:
  "num_of [a, b, c, e] = 1000 * digit_val a + 100 * digit_val b + 10 * digit_val c + digit_val e"
  by (simp add: num_of_def)

lemma num_of2: "num_of [a, b] = 10 * digit_val a + digit_val b"
  by (simp add: num_of_def)

lemma digit_val_mod: "digit_val (digit_char (n mod 10)) = n mod 10"
  by (rule digit_val_digit_char) simp

lemma digits4:
  assumes "y < 10000"
  shows "1000 * (y div 1000 mod 10) + 100 * (y div 100 mod 10) + 10 * (y div 10 mod 10) + y mod 10
         = (y::nat)"
proof -
  define a where "a = y div 10"
  define b where "b = a div 10"
  define c where "c = b div 10"
  have e: "y div 100 = b" "y div 1000 = c" "y div 10 = a"
    by (simp_all add: a_def b_def c_def div_mult2_eq)
  have "c < 10" using assms unfolding e(2) [symmetric] by simp
  then have c: "c mod 10 = c" by simp
  have "y = 10 * a + y mod 10" by (simp add: a_def)
  moreover have "a = 10 * b + a mod 10" by (simp add: b_def)
  moreover have "b = 10 * c + b mod 10" by (simp add: c_def)
  ultimately show ?thesis unfolding e c by linarith
qed

lemma days_in_month_le: "days_in_month y m \<le> 31"
  by (simp add: days_in_month_def)

lemma str_date_shape:
  "length (str_date d) = 10" "str_date d ! 4 = CHR ''-''" "str_date d ! 7 = CHR ''-''"
  by (simp_all add: str_date_def Let_def)

lemma str_date_digits:
  "list_all is_digit (take 4 (str_date d) @ take 2 (drop 5 (str_date d)) @ drop 8 (str_date d))"
  by (simp add: str_date_def Let_def is_digit_digit_char)

lemma str_date_year:
  assumes "nat (year d) < 10000"
  shows "num_of (take 4 (str_date d)) = nat (year d)"
proof -
  define y where "y = nat (year d)"
  have "take 4 (str_date d) =
      [digit_char (y div 1000 mod 10), digit_char (y div 100 mod 10),
       digit_char (y div 10 mod 10), digit_char (y mod 10)]"
    by (simp add: str_date_def Let_def y_def)
  then have "num_of (take 4 (str_date d)) =
      1000 * (y div 1000 mod 10) + 100 * (y div 100 mod 10) + 10 * (y div 10 mod 10) + y mod 10"
    by (simp only: num_of4 digit_val_mod)
  also have "\<dots> = y" using assms unfolding y_def [symmetric] by (rule digits4)
  finally show ?thesis by (simp only: y_def)
qed

lemma str_date_month:
  "nat (month d) < 100 \<Longrightarrow> num_of (take 2 (drop 5 (str_date d))) = nat (month d)"
  by (simp add: str_date_def Let_def num_of2 digit_val_digit_char)

lemma str_date_day: "nat (day d) < 100 \<Longrightarrow> num_of (drop 8 (str_date d)) = nat (day d)"
  by (simp add: str_date_def Let_def num_of2 digit_val_digit_char)

lemma parse_iso_str_date:
  assumes "valid_date d"
  shows "parse_iso (str_date d) = Some d"
proof -
  from assms have y: "nat (year d) < 10000" "0 \<le> year d"
    and m: "nat (month d) < 100" "0 \<le> month d"
    and dd: "nat (day d) < 100" "0 \<le> day d"
    using days_in_month_le [of "year d" "month d"] by (auto simp: valid_date_def)
  have eq: "\<lparr>year = int (num_of (take 4 (str_date d))),
        month = int (num_of (take 2 (drop 5 (str_date d)))),
        day = int (num_of (drop 8 (str_date d)))\<rparr> = d"
    using y m dd by (simp only: str_date_year str_date_month str_date_day) simp
  have c: "length (str_date d) = 10 \<and> str_date d ! 4 = CHR ''-'' \<and> str_date d ! 7 = CHR ''-'' \<and>
         list_all is_digit (take 4 (str_date d) @ take 2 (drop 5 (str_date d)) @ drop 8 (str_date d))"
    using str_date_shape [of d] str_date_digits [of d] by blast
  have "parse_iso (str_date d) = (if valid_date d then Some d else None)"
    unfolding parse_iso_def Let_def eq using c by (rule if_P)
  with assms show ?thesis by (simp only: if_True)
qed

lemma es_iso_str_date: "valid_date d \<Longrightarrow> es_iso (str_date d)"
  by (simp add: es_iso_def parse_iso_str_date)

lemma iso_cell_str_date:
  "valid_date d \<Longrightarrow> iso_cell (str_date d) = (if ts_in_bounds d then Some d else None)"
  by (simp add: iso_cell_def parse_iso_str_date)

lemma map2_map_same: "map2 f xs (map g xs) = map (\<lambda>x. f x (g x)) xs"
  by (induction xs) simp_all

lemma cargar_datos_iso:
  assumes "fechas_iso s"
  shows "cargar_datos otros s = map (\<lambda>r. cargar_fila r (iso_cell (fecha r))) (sucesos s)"
proof -
  have "to_datetime otros (map fecha (sucesos s)) = map (iso_cell \<circ> fecha) (sucesos s)"
    using assms by (simp add: to_datetime_def fechas_iso_def)
  then have "map2 cargar_fila (sucesos s) (to_datetime otros (map fecha (sucesos s))) =
      map (\<lambda>r. cargar_fila r ((iso_cell \<circ> fecha) r)) (sucesos s)"
    by (simp only: map2_map_same)
  then show ?thesis by (simp add: cargar_datos_def Let_def)
qed

lemma fechas_iso_crear_db: "fechas_iso (crear_db None)"
  by (simp add: fechas_iso_def crear_db_def)

lemma str_date_1600: "str_date \<lparr>year = 1600, month = 1, day = 1\<rparr> = ''1600-01-01''"
  by code_simp

lemma str_date_2023: "str_date \<lparr>year = 2023, month = 5, day = 1\<rparr> = ''2023-05-01''"
  by code_simp

lemma parse_iso_1600: "parse_iso ''1600-01-01'' = Some \<lparr>year = 1600, month = 1, day = 1\<rparr>"
  unfolding str_date_1600 [symmetric]
  by (rule parse_iso_str_date) (simp add: valid_date_def days_in_month_def)

lemma parse_iso_2023: "parse_iso ''2023-05-01'' = Some \<lparr>year = 2023, month = 5, day = 1\<rparr>"
  unfolding str_date_2023 [symmetric]
  by (rule parse_iso_str_date) (simp add: valid_date_def days_in_month_def)

subsection \<open>Keys\<close>

lemma foldr_max_ge: "x \<in> set xs \<Longrightarrow> x \<le> foldr max xs (a::int)"
  by (induction xs) auto

lemma id_le_largest_rowid: "r \<in> set (sucesos s) \<Longrightarrow> id_suceso r \<le> largest_rowid s"
  unfolding largest_rowid_def by (rule foldr_max_ge) simp

section \<open>C1: insert, then load\<close>

text \<open>
  C1 as stated fails: \<open>1600-01-01\<close> is a calendar date, the record that carries
  it is written as given, and the loader returns the row with its date missing,
  since the date lies before the first one a timestamp holds and the loader
  coerces what it cannot hold to \<^verbatim>\<open>NaT\<close>. (The store is fresh, so the column
  holds ISO dates only and the parameter of the loader is not consulted.)
\<close>

theorem C1_date_out_of_range:
  "valid_date \<lparr>year = 1600, month = 1, day = 1\<rparr> \<and>
   agregar_suceso (str_date \<lparr>year = 1600, month = 1, day = 1\<rparr>) ''Sismo'' None
       (Some ''Torreon'') (Some (51 / 2)) (Some (- 207 / 2)) 3 (Some ''sin danos'')
       None None (crear_db None) =
     Inr \<lparr>sucesos =
            [\<lparr>id_suceso = 1, fecha = ''1600-01-01'', tipo = ''Sismo'', subtipo = None,
              lugar = Some ''Torreon'', lat = Some (51 / 2), lon = Some (- 207 / 2),
              gravedad = 3, impacto = Some ''sin danos'', fuente = None, notas = None\<rparr>],
          seq = 1\<rparr> \<and>
   cargar_datos (\<lambda>col i. None)
       \<lparr>sucesos =
          [\<lparr>id_suceso = 1, fecha = ''1600-01-01'', tipo = ''Sismo'', subtipo = None,
            lugar = Some ''Torreon'', lat = Some (51 / 2), lon = Some (- 207 / 2),
            gravedad = 3, impacto = Some ''sin danos'', fuente = None, notas = None\<rparr>],
        seq = 1\<rparr> =
     [\<lparr>id_suceso = 1, fecha = None, tipo = ''Sismo'', subtipo = None,
       lugar = Some ''Torreon'', lat = Some (51 / 2), lon = Some (- 207 / 2),
       gravedad = 3, impacto = Some ''sin danos'', fuente = None, notas = None\<rparr>] \<and>
   fecha (hd (cargar_datos (\<lambda>col i. None)
       \<lparr>sucesos =
          [\<lparr>id_suceso = 1, fecha = ''1600-01-01'', tipo = ''Sismo'', subtipo = None,
            lugar = Some ''Torreon'', lat = Some (51 / 2), lon = Some (- 207 / 2),
            gravedad = 3, impacto = Some ''sin danos'', fuente = None, notas = None\<rparr>],
        seq = 1\<rparr>)) \<noteq> Some \<lparr>year = 1600, month = 1, day = 1\<rparr>"
proof -
  let ?s = "\<lparr>sucesos =
          [\<lparr>id_suceso = 1, fecha = ''1600-01-01'', tipo = ''Sismo'', subtipo = None,
            lugar = Some ''Torreon'', lat = Some (51 / 2), lon = Some (- 207 / 2),
            gravedad = 3, impacto = Some ''sin danos'', fuente = None, notas = None\<rparr>],
        seq = 1\<rparr>"
  have v: "valid_date \<lparr>year = 1600, month = 1, day = 1\<rparr>"
    by (simp add: valid_date_def days_in_month_def)
  have a: "agregar_suceso (str_date \<lparr>year = 1600, month = 1, day = 1\<rparr>) ''Sismo'' None
       (Some ''Torreon'') (Some (51 / 2)) (Some (- 207 / 2)) 3 (Some ''sin danos'')
       None None (crear_db None) = Inr ?s"
    unfolding str_date_1600
    by (simp add: agregar_suceso_def largest_rowid_def crear_db_def MAX_ROWID_def)
  have f: "fechas_iso ?s"
    by (simp add: fechas_iso_def es_iso_def parse_iso_1600)
  have c: "iso_cell ''1600-01-01'' = None"
    by (simp add: iso_cell_def parse_iso_1600 ts_in_bounds_def)
  have l: "cargar_datos (\<lambda>col i. None) ?s =
     [\<lparr>id_suceso = 1, fecha = None, tipo = ''Sismo'', subtipo = None,
       lugar = Some ''Torreon'', lat = Some (51 / 2), lon = Some (- 207 / 2),
       gravedad = 3, impacto = Some ''sin danos'', fuente = None, notas = None\<rparr>]"
    unfolding cargar_datos_iso [OF f] by (simp add: cargar_fila_def c)
  show ?thesis
    unfolding l using v a by simp
qed

text \<open>
  C1, amended. Take a store whose date column holds texts of calendar dates only,
  as every store written through the form does (the fresh store is one, and
  the insert keeps the property), a calendar date \<open>d\<close> and a severity that fits the
  integer column (a severity from 1 to 5 does). Then \<^verbatim>\<open>agregar_suceso\<close> succeeds
  whenever the key space is not used up, and \<^verbatim>\<open>cargar_datos\<close> afterwards yields
  the rows loaded before and exactly one new row after them. The new row carries
  the tipo, subtipo, lugar, lat, lon, gravedad, impacto, fuente and notas that
  were passed, unchanged; its id is one above the largest key the table ever
  held, and so differs from every id in the store; its date is \<open>d\<close> when a
  timestamp can hold \<open>d\<close> (1677-09-22 to 2262-04-11) and is missing otherwise.
\<close>

theorem C1_insert_then_load:
  assumes "valid_date d" and "fechas_iso s"
    and "- (2 ^ 63) \<le> g" and "g < 2 ^ 63"
    and "largest_rowid s < MAX_ROWID"
  shows "\<exists>s'. agregar_suceso (str_date d) t st lu la lo g im fu no s = Inr s' \<and>
      fechas_iso s' \<and>
      cargar_datos otros s' = cargar_datos otros s @
        [\<lparr>id_suceso = largest_rowid s + 1,
          fecha = (if ts_in_bounds d then Some d else None), tipo = t, subtipo = st,
          lugar = lu, lat = la, lon = lo, gravedad = g, impacto = im, fuente = fu,
          notas = no\<rparr>] \<and>
      largest_rowid s + 1 \<notin> id_suceso ` set (cargar_datos otros s) \<and>
      largest_rowid s + 1 \<notin> id_suceso ` set (sucesos s)"
proof -
  let ?r = "\<lparr>id_suceso = largest_rowid s + 1, fecha = str_date d, tipo = t,
        subtipo = st, lugar = lu, lat = la, lon = lo, gravedad = g, impacto = im, fuente = fu,
        notas = no\<rparr>"
  let ?s' = "\<lparr>sucesos = sucesos s @ [?r], seq = largest_rowid s + 1\<rparr>"
  have fresh: "largest_rowid s + 1 \<notin> id_suceso ` set (sucesos s)"
    using id_le_largest_rowid [of _ s] by fastforce
  have "\<And>r. id_suceso (cargar_fila r (iso_cell (fecha r))) = id_suceso r"
    by (simp add: cargar_fila_def)
  then have ids: "id_suceso ` (\<lambda>r. cargar_fila r (iso_cell (fecha r))) ` set (sucesos s) =
      id_suceso ` set (sucesos s)"
    by (simp add: image_image)
  have new: "cargar_fila ?r (iso_cell (fecha ?r)) =
      \<lparr>id_suceso = largest_rowid s + 1,
        fecha = (if ts_in_bounds d then Some d else None), tipo = t, subtipo = st,
        lugar = lu, lat = la, lon = lo, gravedad = g, impacto = im, fuente = fu,
        notas = no\<rparr>"
    using assms(1) by (simp add: cargar_fila_def iso_cell_str_date)
  have iso': "fechas_iso ?s'"
    using assms(1,2) by (simp add: fechas_iso_def es_iso_str_date)
  have ins: "agregar_suceso (str_date d) t st lu la lo g im fu no s = Inr ?s'"
    using assms(3,4,5) by (simp add: agregar_suceso_def)
  have load: "cargar_datos otros ?s' = cargar_datos otros s @
      [cargar_fila ?r (iso_cell (fecha ?r))]"
    unfolding cargar_datos_iso [OF iso'] cargar_datos_iso [OF assms(2)] by simp
  have fresh': "largest_rowid s + 1 \<notin> id_suceso ` set (cargar_datos otros s)"
    unfolding cargar_datos_iso [OF assms(2)] using fresh by (simp add: ids)
  show ?thesis
    using ins iso' load fresh fresh' unfolding new by blast
qed

theorem C1_insert_then_load_witness:
  "valid_date \<lparr>year = 2024, month = 2, day = 29\<rparr> \<and>
   fechas_iso db_ej \<and>
   - (2 ^ 63) \<le> (3::int) \<and> (3::int) < 2 ^ 63 \<and>
   largest_rowid db_ej < MAX_ROWID \<and>
   (\<exists>s'. agregar_suceso (str_date \<lparr>year = 2024, month = 2, day = 29\<rparr>) ''Sismo'' None
            (Some ''Torreon'') (Some (25538 / 1000)) (Some (- 103448 / 1000)) 3 (Some ''sin danos'')
            None None db_ej = Inr s' \<and>
      fechas_iso s' \<and>
      cargar_datos (\<lambda>col i. None) s' =
        [\<lparr>id_suceso = 4, fecha = Some \<lparr>year = 2023, month = 5, day = 1\<rparr>, tipo = ''Apagon'',
          subtipo = None, lugar = Some ''Centro'', lat = None, lon = None, gravedad = 2,
          impacto = Some ''sin luz'', fuente = None, notas = None\<rparr>,
         \<lparr>id_suceso = 7, fecha = Some \<lparr>year = 2024, month = 2, day = 29\<rparr>, tipo = ''Sismo'',
          subtipo = None, lugar = Some ''Torreon'', lat = Some (25538 / 1000),
          lon = Some (- 103448 / 1000), gravedad = 3, impacto = Some ''sin danos'', fuente = None,
          notas = None\<rparr>]) \<and>
   7 \<notin> id_suceso ` set (cargar_datos (\<lambda>col i. None) db_ej) \<and>
   7 \<notin> id_suceso ` set (sucesos db_ej)"
proof -
  have h1: "valid_date \<lparr>year = 2024, month = 2, day = 29\<rparr>"
    by (simp add: valid_date_def days_in_month_def is_leap_def)
  have h2: "fechas_iso db_ej"
    by (simp add: fechas_iso_def db_ej_def es_iso_def parse_iso_2023)
  have h3: "- (2 ^ 63) \<le> (3::int)" and h4: "(3::int) < 2 ^ 63"
    by simp_all
  have h5: "largest_rowid db_ej < MAX_ROWID"
    by (simp add: largest_rowid_def db_ej_def MAX_ROWID_def)
  have c: "iso_cell ''2023-05-01'' = Some \<lparr>year = 2023, month = 5, day = 1\<rparr>"
    by (simp add: iso_cell_def parse_iso_2023 ts_in_bounds_def)
  have e: "largest_rowid db_ej + 1 = 7"
    "cargar_datos (\<lambda>col i. None) db_ej =
      [\<lparr>id_suceso = 4, fecha = Some \<lparr>year = 2023, month = 5, day = 1\<rparr>, tipo = ''Apagon'',
        subtipo = None, lugar = Some ''Centro'', lat = None, lon = None, gravedad = 2,
        impacto = Some ''sin luz'', fuente = None, notas = None\<rparr>]"
    unfolding cargar_datos_iso [OF h2]
    by (simp_all add: largest_rowid_def db_ej_def cargar_fila_def c)
  show ?thesis
    using h1 h2 h5
      C1_insert_then_load [OF h1 h2 h3 h4 h5, where t = "''Sismo''" and st = None
        and lu = "Some ''Torreon''" and la = "Some (25538 / 1000)"
        and lo = "Some (- 103448 / 1000)" and im = "Some ''sin danos''" and fu = None and no = None
        and otros = "\<lambda>col i. None"]
    unfolding e by (auto simp: ts_in_bounds_def)
qed

section \<open>Lemmas on the estimator\<close>

lemma value_counts_Nil: "value_counts [] = []"
  by (simp add: value_counts_def)

lemma set_value_counts: "set (value_counts xs) = (\<lambda>t. (t, count_list xs t)) ` set xs"
  by (simp add: value_counts_def)

lemma distinct_value_counts: "distinct (map fst (value_counts xs))"
proof -
  let ?ys = "map (\<lambda>t. (t, count_list xs t)) (rev (remdups (rev xs)))"
  have "distinct (map fst ?ys)" by (simp add: comp_def)
  then have "distinct ?ys \<and> inj_on fst (set ?ys)" by (simp only: distinct_map)
  then have "distinct (sort_key (\<lambda>(t, n). - int n) ?ys) \<and>
      inj_on fst (set (sort_key (\<lambda>(t, n). - int n) ?ys))"
    by (simp only: distinct_sort set_sort)
  then show ?thesis unfolding value_counts_def by (simp only: distinct_map)
qed

lemma remdups_replicate_Suc: "remdups (replicate (Suc k) x) = [x]"
  by (induction k) auto

lemma remdups_replicate_pos: "0 < k \<Longrightarrow> remdups (replicate k x) = [x]"
  using remdups_replicate_Suc [of "k - 1" x] by simp

lemma count_list_replicate: "count_list (replicate k x) x = k"
  by (induction k) auto

lemma value_counts_replicate: "0 < k \<Longrightarrow> value_counts (replicate k x) = [(x, k)]"
  by (simp add: value_counts_def remdups_replicate_pos count_list_replicate)

lemma filas_resumen:
  "filas (resumen_probabilidades df cy) =
     map fila_de (value_counts (map tipo (filter (es_reciente cy) df)))"
  by (simp add: resumen_probabilidades_def DataFrame_def Let_def value_counts_Nil)

lemma es_reciente_iff: "es_reciente cy r \<longleftrightarrow> en_ventana cy r"
  by (simp add: es_reciente_def en_ventana_def dt_year_def split: option.splits)

lemma count_list_map_filter:
  "count_list (map f (filter P xs)) t = length (filter (\<lambda>r. f r = t \<and> P r) xs)"
  by (induction xs) auto

lemma Tipo_fila_de: "Tipo (fila_de (t, n)) = t"
  by (simp add: fila_de_def Let_def)

lemma Eventos_fila_de: "Eventos (fila_de (t, n)) = n"
  by (simp add: fila_de_def Let_def)

lemma fila_en_resumen:
  "row \<in> set (filas (resumen_probabilidades df cy)) \<longleftrightarrow>
     (\<exists>r \<in> set df. en_ventana cy r \<and>
        row = fila_de (tipo r, length (filter (\<lambda>r'. tipo r' = tipo r \<and> en_ventana cy r') df)))"
  by (auto simp: filas_resumen set_value_counts count_list_map_filter es_reciente_iff image_iff)


lemma round_half_even_near:
  assumes "of_int n - 1 / 2 < x" and "x < of_int n + 1 / 2"
  shows "round_half_even x = n"
proof -
  have "\<lfloor>x\<rfloor> = n \<or> \<lfloor>x\<rfloor> = n - 1"
    using assms by linarith
  then show ?thesis
  proof
    assume f: "\<lfloor>x\<rfloor> = n"
    then have "x - of_int n < 1 / 2" using assms by linarith
    with f show ?thesis by (simp add: round_half_even_def Let_def)
  next
    assume f: "\<lfloor>x\<rfloor> = n - 1"
    then have "1 / 2 < x - of_int (n - 1)" using assms by simp
    with f show ?thesis by (simp add: round_half_even_def Let_def)
  qed
qed

lemma round_half_even_of_int: "round_half_even (of_int n) = n"
  by (rule round_half_even_near) simp_all

lemma exp_minus_one_bounds: "3675 / 10000 < exp (- 1 :: real)" "exp (- 1 :: real) < 3685 / 10000"
proof -
  obtain t :: real where t: "\<bar>t\<bar> \<le> \<bar>- 1\<bar>"
    and e: "exp (- 1 :: real) = (\<Sum>m<8. ((- 1) ^ m) / fact m) + (exp t / fact 8) * (- 1) ^ 8"
    using Maclaurin_exp_le [of "- 1 :: real" 8] by blast
  have s: "(\<Sum>m<8. ((- 1 :: real) ^ m) / fact m) = 103 / 280"
    by (simp add: eval_nat_numeral)
  have "t \<le> 1" using t by simp
  then have "exp t \<le> exp 1" by simp
  then have u: "exp t \<le> 3" using exp_le by linarith
  have l: "0 < exp t" by simp
  have f: "fact 8 = (40320 :: real)" by (simp add: eval_nat_numeral)
  have e': "exp (- 1 :: real) = 103 / 280 + exp t / 40320"
    unfolding e s f by simp
  show "3675 / 10000 < exp (- 1 :: real)" using l unfolding e' by linarith
  show "exp (- 1 :: real) < 3685 / 10000" using u unfolding e' by linarith
qed

lemma str_nat_63: "str_nat 63 = ''63''"
  by code_simp

lemma digit_char_2: "digit_char 2 = CHR ''2''"
  by code_simp

lemma fmt_1f_poisson_1: "fmt_1f (probabilidad_poisson 1 * 100) = ''63.2''"
proof -
  let ?x = "probabilidad_poisson 1 * 100"
  have b: "632 - 1 / 2 < ?x * 10" "?x * 10 < 632 + 1 / 2"
    using exp_minus_one_bounds by (simp_all add: probabilidad_poisson_def)
  then have "round_half_even (?x * 10) = 632"
    using round_half_even_near [of 632 "?x * 10"] by simp
  moreover have "0 \<le> ?x" using b by simp
  ultimately show ?thesis
    by (simp add: fmt_1f_def Let_def str_nat_63 digit_char_2 abs_of_nonneg)
qed

lemma py_round2_fifths: "py_round2 (real n / 5) = real n / 5"
proof -
  have "real n / 5 * 100 = of_int (20 * int n)" by simp
  then have "round_half_even (real n / 5 * 100) = 20 * int n"
    by (simp only: round_half_even_of_int)
  then show ?thesis by (simp add: py_round2_def)
qed

lemma fila_de_5: "fila_de (t, 5) = \<lparr>Tipo = t, Eventos = 5, Promedio_anual = 1, Probabilidad = ''63.2%''\<rparr>"
  using py_round2_fifths [of 5] fmt_1f_poisson_1 by (simp add: fila_de_def Let_def)

lemma round_half_even_mono:
  assumes "x \<le> y"
  shows "round_half_even x \<le> round_half_even y"
proof -
  have f: "\<lfloor>x\<rfloor> \<le> \<lfloor>y\<rfloor>" using assms by (rule floor_mono)
  have bx: "round_half_even x \<le> \<lfloor>x\<rfloor> + 1" and by': "\<lfloor>y\<rfloor> \<le> round_half_even y"
    by (simp_all add: round_half_even_def Let_def)
  show ?thesis
  proof (cases "\<lfloor>x\<rfloor> < \<lfloor>y\<rfloor>")
    case True
    with bx by' show ?thesis by linarith
  next
    case False
    with f have e: "\<lfloor>x\<rfloor> = \<lfloor>y\<rfloor>" by simp
    have "x - of_int \<lfloor>y\<rfloor> \<le> y - of_int \<lfloor>y\<rfloor>" using assms by simp
    then show ?thesis
      by (auto simp: round_half_even_def Let_def e)
  qed
qed

lemma round_half_even_le: "x \<le> of_int n \<Longrightarrow> round_half_even x \<le> n"
  using round_half_even_mono [of x "of_int n"] by (simp add: round_half_even_of_int)

lemma round_half_even_ge: "of_int n \<le> x \<Longrightarrow> n \<le> round_half_even x"
  using round_half_even_mono [of "of_int n" x] by (simp add: round_half_even_of_int)

lemma exp_minus_fifths: "0 < k \<Longrightarrow> exp (- (real k / 5)) \<le> 5 / 6"
proof -
  assume "0 < k"
  then have "1 / 5 \<le> real k / 5" by simp
  then have "exp (- (real k / 5)) \<le> exp (- (1 / 5) :: real)" by simp
  also have "\<dots> = inverse (exp (1 / 5))" by (simp add: exp_minus)
  also have "\<dots> \<le> inverse (6 / 5)"
    using exp_ge_add_one_self [of "1 / 5 :: real"] by (intro le_imp_inverse_le) simp_all
  finally show ?thesis by simp
qed

lemma exp_39_5: "exp (- (39 / 5) :: real) < 1 / 2100"
proof -
  have q: "(1 + 39 / 100 + (39 / 100)\<^sup>2 / 2 :: real) = 29321 / 20000"
    by (simp add: power2_eq_square)
  have "(2100 :: real) < (29321 / 20000) ^ 20"
    by (simp add: power_divide)
  also have "\<dots> \<le> exp (39 / 100) ^ 20"
    unfolding q [symmetric] by (rule power_mono [OF exp_lower_Taylor_quadratic]) simp_all
  also have "\<dots> = exp (of_nat 20 * (39 / 100 :: real))"
    by (simp only: exp_of_nat_mult)
  also have "\<dots> = exp (39 / 5)" by simp
  finally have "2100 < exp (39 / 5 :: real)" .
  then have "inverse (exp (39 / 5 :: real)) < inverse 2100"
    by (simp add: field_simps)
  then show ?thesis by (simp add: exp_minus)
qed

lemma exp_minus_from_39: "39 \<le> n \<Longrightarrow> exp (- (real n / 5)) < 1 / 2100"
proof -
  assume "39 \<le> n"
  then have "39 / 5 \<le> real n / 5" by simp
  then have "exp (- (real n / 5)) \<le> exp (- (39 / 5) :: real)" by simp
  with exp_39_5 show ?thesis by linarith
qed

lemma cerca_bounds:
  assumes "cerca x n"
  shows "1 - exp (- (real n / 5)) - 1 / 1000000000 \<le> x"
    and "x \<le> 1 - exp (- (real n / 5)) + 1 / 1000000000"
proof -
  have d: "(1 / 10 ^ 9 :: real) = 1 / 1000000000" by simp
  have "\<bar>x - (1 - exp (- (real n / 5)))\<bar> \<le> 1 / 1000000000"
    using assms unfolding cerca_def probabilidad_poisson_def d .
  then show "1 - exp (- (real n / 5)) - 1 / 1000000000 \<le> x"
    and "x \<le> 1 - exp (- (real n / 5)) + 1 / 1000000000"
    by linarith+
qed

lemma decimas_1000:
  assumes "39 \<le> n" and "cerca x n"
  shows "decimas x = 1000"
proof -
  define E where "E = exp (- (real n / 5))"
  have e: "E < 1 / 2100" "0 < E"
    using exp_minus_from_39 [OF assms(1)] unfolding E_def by simp_all
  note c = cerca_bounds [OF assms(2), folded E_def]
  have "1000 - 1 / 2 < x * 100 * 10" "x * 100 * 10 < 1000 + 1 / 2"
    using e c by linarith+
  then have "of_int 1000 - 1 / 2 < x * 100 * 10" "x * 100 * 10 < of_int 1000 + 1 / 2"
    by simp_all
  then show ?thesis unfolding decimas_def by (rule round_half_even_near)
qed

lemma decimas_bounds:
  assumes "0 < n" and "cerca x n"
  shows "166 \<le> decimas x" and "decimas x \<le> 1000" and "0 \<le> x"
proof -
  define E where "E = exp (- (real n / 5))"
  have e: "E \<le> 5 / 6" "0 < E"
    using exp_minus_fifths [OF assms(1)] unfolding E_def by simp_all
  note c = cerca_bounds [OF assms(2), folded E_def]
  have "166 \<le> x * 100 * 10" using e c by linarith
  then have "of_int 166 \<le> x * 100 * 10" by simp
  then show "166 \<le> decimas x" unfolding decimas_def by (rule round_half_even_ge)
  have "x * 100 * 10 < 1000 + 1 / 2" using e c by linarith
  then have u: "x * 100 * 10 < of_int 1000 + 1 / 2" by simp
  show "decimas x \<le> 1000"
  proof (cases "x * 100 * 10 \<le> of_int 1000")
    case True
    then show ?thesis unfolding decimas_def by (rule round_half_even_le)
  next
    case False
    then have "of_int 1000 - 1 / 2 < x * 100 * 10" by simp
    then have "decimas x = 1000" unfolding decimas_def using u by (rule round_half_even_near)
    then show ?thesis by simp
  qed
  show "0 \<le> x" using e c by linarith
qed

lemma decimas_mono:
  assumes "m < n" and "cerca x m" and "cerca y n"
  shows "decimas x \<le> decimas y"
proof -
  define a where "a = exp (- (real m / 5))"
  define b where "b = exp (- (real (n - m) / 5))"
  have ab: "exp (- (real n / 5)) = a * b"
    using assms(1) unfolding a_def b_def by (simp add: exp_add [symmetric] of_nat_diff field_simps)
  have "0 < n - m" using assms(1) by simp
  then have "b \<le> 5 / 6" unfolding b_def by (rule exp_minus_fifths)
  then have a: "0 < a" and b: "0 < b" "b \<le> 5 / 6"
    unfolding a_def b_def by simp_all
  note cx = cerca_bounds [OF assms(2), folded a_def]
  note cy = cerca_bounds [OF assms(3), unfolded ab]
  show ?thesis
  proof (cases "12 / 10 ^ 9 \<le> a")
    case True
    have "a * b \<le> a * (5 / 6)" using a b by (intro mult_left_mono) simp_all
    moreover have "12 / 1000000000 \<le> a" using True by simp
    ultimately have "2 / 1000000000 \<le> a - a * b" by linarith
    then have "x \<le> y" using cx cy by linarith
    then have "x * 100 * 10 \<le> y * 100 * 10" by simp
    then show ?thesis unfolding decimas_def by (rule round_half_even_mono)
  next
    case False
    have "a * b \<le> a * 1" using a b by (intro mult_left_mono) simp_all
    then have ab1: "a * b \<le> a" "0 < a * b" using a b by simp_all
    have s: "a < 12 / 1000000000" using False by simp
    have "1000 - 1 / 2 < x * 100 * 10" "x * 100 * 10 < 1000 + 1 / 2"
      using s a cx by linarith+
    then have "of_int 1000 - 1 / 2 < x * 100 * 10" "x * 100 * 10 < of_int 1000 + 1 / 2"
      by simp_all
    then have dx: "decimas x = 1000" unfolding decimas_def by (rule round_half_even_near)
    have "1000 - 1 / 2 < y * 100 * 10" "y * 100 * 10 < 1000 + 1 / 2"
      using s ab1 cy by linarith+
    then have "of_int 1000 - 1 / 2 < y * 100 * 10" "y * 100 * 10 < of_int 1000 + 1 / 2"
      by simp_all
    then have "decimas y = 1000" unfolding decimas_def by (rule round_half_even_near)
    with dx show ?thesis by simp
  qed
qed

lemma fmt_1f_decimas:
  "0 \<le> x \<Longrightarrow> fmt_1f (x * 100) =
     str_nat (nat (decimas x) div 10) @ ''.'' @ [digit_char (nat (decimas x) mod 10)]"
  by (simp add: fmt_1f_def decimas_def Let_def abs_of_nonneg)

lemma str_nat_100: "str_nat 100 = ''100''"
  by code_simp

lemma digit_char_0: "digit_char 0 = CHR ''0''"
  by code_simp

lemma cerca_exact: "cerca (probabilidad_poisson (real n / 5)) n"
  by (simp add: cerca_def)

lemma fmt_1f_100:
  assumes "39 \<le> n" and "cerca x n"
  shows "fmt_1f (x * 100) = ''100.0''"
proof -
  have "0 < n" using assms(1) by simp
  then have "0 \<le> x" using assms(2) by (rule decimas_bounds(3))
  then show ?thesis
    by (simp add: fmt_1f_decimas decimas_1000 [OF assms] str_nat_100 digit_char_0)
qed

lemma Probabilidad_fila_de:
  "Probabilidad (fila_de (t, n)) = fmt_1f (probabilidad_poisson (real n / 5) * 100) @ ''%''"
  by (simp add: fila_de_def Let_def)

lemma Probabilidad_100: "39 \<le> n \<Longrightarrow> Probabilidad (fila_de (t, n)) = ''100.0%''"
  by (simp add: Probabilidad_fila_de fmt_1f_100 [OF _ cerca_exact])

lemma df_muchos_counts:
  "length (filter (\<lambda>r. tipo r = ''Sismo'' \<and> en_ventana 2026 r) df_muchos) = 39"
  "length (filter (\<lambda>r. tipo r = ''Flood'' \<and> en_ventana 2026 r) df_muchos) = 40"
  by (simp_all add: df_muchos_def filter_map o_def fila_ej_def en_ventana_def)

lemma df_muchos_rows:
  "fila_de (''Sismo'', 39) \<in> set (filas (resumen_probabilidades df_muchos 2026))"
  "fila_de (''Flood'', 40) \<in> set (filas (resumen_probabilidades df_muchos 2026))"
proof -
  have "fila_ej (int 1) 2025 ''Sismo'' \<in> set df_muchos"
    unfolding df_muchos_def set_append set_map
    by (rule UnI1) (rule imageI [of _ _ "\<lambda>i. fila_ej (int i) 2025 ''Sismo''"], simp)
  moreover have "fila_ej (int 40) 2026 ''Flood'' \<in> set df_muchos"
    unfolding df_muchos_def set_append set_map
    by (rule UnI2) (rule imageI [of _ _ "\<lambda>i. fila_ej (int i) 2026 ''Flood''"], simp)
  ultimately have a: "fila_ej 1 2025 ''Sismo'' \<in> set df_muchos"
    "fila_ej 40 2026 ''Flood'' \<in> set df_muchos"
    by simp_all
  have t: "tipo (fila_ej 1 2025 ''Sismo'') = ''Sismo''" "tipo (fila_ej 40 2026 ''Flood'') = ''Flood''"
    "en_ventana 2026 (fila_ej 1 2025 ''Sismo'')" "en_ventana 2026 (fila_ej 40 2026 ''Flood'')"
    by (simp_all add: fila_ej_def en_ventana_def)
  show "fila_de (''Sismo'', 39) \<in> set (filas (resumen_probabilidades df_muchos 2026))"
    unfolding fila_en_resumen
    by (rule bexI [OF _ a(1)]) (simp only: t df_muchos_counts simp_thms)
  show "fila_de (''Flood'', 40) \<in> set (filas (resumen_probabilidades df_muchos 2026))"
    unfolding fila_en_resumen
    by (rule bexI [OF _ a(2)]) (simp only: t df_muchos_counts simp_thms)
qed

lemma Tipo_fila_de_fst: "Tipo (fila_de x) = fst x"
  by (cases x) (simp add: Tipo_fila_de)

lemma distinct_Tipo_filas: "distinct (map Tipo (filas (resumen_probabilidades df cy)))"
proof -
  have "map Tipo (map fila_de xs) = map fst xs" for xs
    by (simp add: Tipo_fila_de_fst)
  then show ?thesis
    by (simp only: filas_resumen distinct_value_counts)
qed

lemma filas_resumen_drop:
  assumes "\<not> en_ventana cy r"
  shows "filas (resumen_probabilidades (xs @ r # ys) cy) =
    filas (resumen_probabilidades (xs @ ys) cy)"
  using assms by (simp add: filas_resumen es_reciente_iff)

section \<open>C2: five floods\<close>

text \<open>
  C2. When the input holds exactly five records, all of category \<open>Flood\<close> and all
  dated inside the window, \<^verbatim>\<open>resumen_probabilidades\<close> returns the table of the
  four columns with exactly one row: category \<open>Flood\<close>, count 5, rate 1 (5 / 5,
  which rounding to two decimals leaves as it is) and probability text
  \<open>63.2%\<close>, the rendering of \<open>(1 - exp (- 1)) * 100\<close> with one decimal.
\<close>

theorem C2_five_floods:
  assumes "length df = 5"
    and "\<forall>r \<in> set df. tipo r = ''Flood'' \<and> en_ventana cy r"
  shows "resumen_probabilidades df cy =
     \<lparr>columns = columnas_resumen,
      filas = [\<lparr>Tipo = ''Flood'', Eventos = 5, Promedio_anual = 1, Probabilidad = ''63.2%''\<rparr>]\<rparr>"
proof -
  have ne: "df \<noteq> []" using assms(1) by auto
  have f: "filter (es_reciente cy) df = df"
    using assms(2) by (simp add: es_reciente_iff)
  have "map tipo df = replicate (length df) ''Flood''"
    by (rule replicate_eqI) (use assms(2) in auto)
  then have m: "map tipo df = replicate 5 ''Flood''" using assms(1) by simp
  have "value_counts (replicate 5 ''Flood'') = [(''Flood'', 5)]"
    by (rule value_counts_replicate) simp
  then show ?thesis
    using ne by (simp add: resumen_probabilidades_def Let_def f m DataFrame_def fila_de_5)
qed

theorem C2_five_floods_witness:
  "resumen_probabilidades
     [fila_ej 1 2022 ''Flood'', fila_ej 2 2023 ''Flood'', fila_ej 3 2024 ''Flood'',
      fila_ej 4 2025 ''Flood'', fila_ej 5 2026 ''Flood''] 2026 =
   \<lparr>columns = columnas_resumen,
    filas = [\<lparr>Tipo = ''Flood'', Eventos = 5, Promedio_anual = 1, Probabilidad = ''63.2%''\<rparr>]\<rparr>"
  by (rule C2_five_floods) (simp_all add: en_ventana_def fila_ej_def)

section \<open>C3: the five-year window\<close>

text \<open>
  C3. For every input and every current year, the estimator counts a record if
  and only if the record has a date whose year is at least the current year
  minus 4 (\<open>en_ventana\<close>): the count of every row of the result is the number of
  records of that category inside the window, and is positive; a category has a
  row exactly when one of its records is inside the window; no category has two
  rows. A record outside the window changes no row, whatever its place in the
  input; a record dated in the sixth year before the current one is outside the
  window.
\<close>

theorem C3_window:
  "(\<forall>row \<in> set (filas (resumen_probabilidades df cy)).
      0 < Eventos row \<and>
      Eventos row = length (filter (\<lambda>r. tipo r = Tipo row \<and> en_ventana cy r) df)) \<and>
   (\<forall>t. (\<exists>row \<in> set (filas (resumen_probabilidades df cy)). Tipo row = t) \<longleftrightarrow>
        (\<exists>r \<in> set df. tipo r = t \<and> en_ventana cy r)) \<and>
   distinct (map Tipo (filas (resumen_probabilidades df cy))) \<and>
   (\<not> en_ventana cy r \<longrightarrow>
      filas (resumen_probabilidades (xs @ r # ys) cy) =
      filas (resumen_probabilidades (xs @ ys) cy)) \<and>
   (\<forall>d. fecha r = Some d \<and> year d = cy - 6 \<longrightarrow> \<not> en_ventana cy r)"
proof (intro conjI)
  show "\<forall>row \<in> set (filas (resumen_probabilidades df cy)).
      0 < Eventos row \<and>
      Eventos row = length (filter (\<lambda>r. tipo r = Tipo row \<and> en_ventana cy r) df)"
  proof
    fix row
    assume "row \<in> set (filas (resumen_probabilidades df cy))"
    then obtain r0 where r0: "r0 \<in> set df" "en_ventana cy r0"
      and row: "row = fila_de (tipo r0,
        length (filter (\<lambda>r'. tipo r' = tipo r0 \<and> en_ventana cy r') df))"
      unfolding fila_en_resumen by blast
    have "r0 \<in> set (filter (\<lambda>r'. tipo r' = tipo r0 \<and> en_ventana cy r') df)"
      using r0 by simp
    then have "0 < length (filter (\<lambda>r'. tipo r' = tipo r0 \<and> en_ventana cy r') df)"
      by (rule length_pos_if_in_set)
    then show "0 < Eventos row \<and>
      Eventos row = length (filter (\<lambda>r. tipo r = Tipo row \<and> en_ventana cy r) df)"
      unfolding row by (simp add: Tipo_fila_de Eventos_fila_de)
  qed
  show "\<forall>t. (\<exists>row \<in> set (filas (resumen_probabilidades df cy)). Tipo row = t) \<longleftrightarrow>
        (\<exists>r \<in> set df. tipo r = t \<and> en_ventana cy r)"
  proof (intro allI iffI)
    fix t
    assume "\<exists>row \<in> set (filas (resumen_probabilidades df cy)). Tipo row = t"
    then obtain row where "row \<in> set (filas (resumen_probabilidades df cy))" "Tipo row = t"
      by blast
    then show "\<exists>r \<in> set df. tipo r = t \<and> en_ventana cy r"
      unfolding fila_en_resumen by (auto simp: Tipo_fila_de)
  next
    fix t
    assume "\<exists>r \<in> set df. tipo r = t \<and> en_ventana cy r"
    then obtain r0 where r0: "r0 \<in> set df" "tipo r0 = t" "en_ventana cy r0"
      by blast
    let ?row = "fila_de (tipo r0,
        length (filter (\<lambda>r'. tipo r' = tipo r0 \<and> en_ventana cy r') df))"
    have "?row \<in> set (filas (resumen_probabilidades df cy))"
      unfolding fila_en_resumen using r0 by blast
    moreover have "Tipo ?row = t"
      using r0(2) by (simp add: Tipo_fila_de)
    ultimately show "\<exists>row \<in> set (filas (resumen_probabilidades df cy)). Tipo row = t"
      by blast
  qed
  show "distinct (map Tipo (filas (resumen_probabilidades df cy)))"
    by (rule distinct_Tipo_filas)
  show "\<not> en_ventana cy r \<longrightarrow>
      filas (resumen_probabilidades (xs @ r # ys) cy) =
      filas (resumen_probabilidades (xs @ ys) cy)"
    by (simp add: filas_resumen_drop)
  show "\<forall>d. fecha r = Some d \<and> year d = cy - 6 \<longrightarrow> \<not> en_ventana cy r"
    by (simp add: en_ventana_def)
qed

theorem C3_window_witness:
  "filas (resumen_probabilidades
      ([fila_ej 1 2024 ''Flood''] @ fila_ej 2 2020 ''Flood'' # [fila_ej 3 2026 ''Flood'']) 2026) =
   filas (resumen_probabilidades ([fila_ej 1 2024 ''Flood''] @ [fila_ej 3 2026 ''Flood'']) 2026)"
proof -
  have h: "\<not> en_ventana 2026 (fila_ej 2 2020 ''Flood'')"
    by (simp add: en_ventana_def fila_ej_def)
  from C3_window [of "[]" 2026 "fila_ej 2 2020 ''Flood''" "[fila_ej 1 2024 ''Flood'']"
      "[fila_ej 3 2026 ''Flood'']"]
  have "\<not> en_ventana 2026 (fila_ej 2 2020 ''Flood'') \<longrightarrow>
      filas (resumen_probabilidades
        ([fila_ej 1 2024 ''Flood''] @ fila_ej 2 2020 ''Flood'' # [fila_ej 3 2026 ''Flood'']) 2026) =
      filas (resumen_probabilidades
        ([fila_ej 1 2024 ''Flood''] @ [fila_ej 3 2026 ''Flood'']) 2026)"
    by (elim conjE)
  with h show ?thesis by (rule rev_mp)
qed

section \<open>C9: the empty input\<close>

text \<open>
  C9. For the empty input \<^verbatim>\<open>resumen_probabilidades\<close> returns, without raising,
  the table with the four columns (type, events of the last five years, annual
  mean, probability) and no row.
\<close>

theorem C9_empty_input:
  "resumen_probabilidades [] cy = \<lparr>columns = columnas_resumen, filas = []\<rparr> \<and>
   length columnas_resumen = 4 \<and> hd columnas_resumen = ''Tipo''"
  by (simp add: resumen_probabilidades_def columnas_resumen_def)

section \<open>C10: the probability of a row\<close>

text \<open>
  C10 as stated fails: the probability a row reports is the text of the value
  rounded to one decimal. In the table computed from 39 records of one category
  and 40 of another, both rows report \<open>100.0%\<close>: the display reaches 100%, and
  the category with the larger count does not get a larger probability.
\<close>

theorem C10_display_reaches_100:
  "fila_de (''Sismo'', 39) \<in> set (filas (resumen_probabilidades df_muchos 2026)) \<and>
   fila_de (''Flood'', 40) \<in> set (filas (resumen_probabilidades df_muchos 2026)) \<and>
   Eventos (fila_de (''Sismo'', 39)) = 39 \<and>
   Probabilidad (fila_de (''Sismo'', 39)) = ''100.0%'' \<and>
   Eventos (fila_de (''Flood'', 40)) = 40 \<and>
   Probabilidad (fila_de (''Flood'', 40)) = ''100.0%''"
  by (simp add: df_muchos_rows Eventos_fila_de Probabilidad_100)

text \<open>
  C10, amended. Every row of the result has a count \<open>n\<close> of at least 1, and its
  probability is the text of \<open>(1 - exp (- n / 5)) * 100\<close> in the format \<^verbatim>\<open>.1f\<close>
  followed by \<open>%\<close>. Let \<open>x\<close> be a value computed for the row, at most
  \<open>1 / 10 ^ 9\<close> away from \<open>1 - exp (- n / 5)\<close> (the exact value is one; the
  rounding error of a double computation is far smaller). The text shown for \<open>x\<close> is a whole number of tenths of
  a percent, \<open>decimas x\<close>, between 16.6 and 100.0: it is greater than 0 and never
  above 100%. It is never smaller for the row with the larger count. From a
  count of 39 on it is \<open>100.0\<close>, so the display does reach 100% and does not
  increase strictly.
\<close>

theorem C10_reported_percentage:
  assumes "row \<in> set (filas (resumen_probabilidades df cy))"
    and "row' \<in> set (filas (resumen_probabilidades df cy))"
    and "cerca x (Eventos row)" and "cerca x' (Eventos row')"
  shows "1 \<le> Eventos row \<and>
    Probabilidad row = fmt_1f (probabilidad_poisson (real (Eventos row) / 5) * 100) @ ''%'' \<and>
    fmt_1f (x * 100) =
      str_nat (nat (decimas x) div 10) @ ''.'' @ [digit_char (nat (decimas x) mod 10)] \<and>
    166 \<le> decimas x \<and> decimas x \<le> 1000 \<and>
    (Eventos row < Eventos row' \<longrightarrow> decimas x \<le> decimas x') \<and>
    (39 \<le> Eventos row \<longrightarrow>
       decimas x = 1000 \<and> fmt_1f (x * 100) = ''100.0'' \<and> Probabilidad row = ''100.0%'')"
proof -
  from assms(1) obtain r0 where r0: "r0 \<in> set df" "en_ventana cy r0"
    and row0: "row = fila_de (tipo r0,
        length (filter (\<lambda>r'. tipo r' = tipo r0 \<and> en_ventana cy r') df))"
    unfolding fila_en_resumen by blast
  define t where "t = tipo r0"
  define n where "n = length (filter (\<lambda>r'. tipo r' = tipo r0 \<and> en_ventana cy r') df)"
  have row: "row = fila_de (t, n)"
    using row0 by (simp only: t_def n_def)
  have "r0 \<in> set (filter (\<lambda>r'. tipo r' = tipo r0 \<and> en_ventana cy r') df)"
    using r0 by simp
  then have n: "0 < n"
    unfolding n_def by (rule length_pos_if_in_set)
  have e: "Eventos row = n" unfolding row by (rule Eventos_fila_de)
  have cx: "cerca x n" using assms(3) unfolding e .
  have "1 \<le> Eventos row" using n unfolding e by simp
  moreover have "Probabilidad row =
      fmt_1f (probabilidad_poisson (real (Eventos row) / 5) * 100) @ ''%''"
    unfolding e unfolding row by (rule Probabilidad_fila_de)
  moreover have "fmt_1f (x * 100) =
      str_nat (nat (decimas x) div 10) @ ''.'' @ [digit_char (nat (decimas x) mod 10)]"
    using decimas_bounds(3) [OF n cx] by (rule fmt_1f_decimas)
  moreover have "166 \<le> decimas x" "decimas x \<le> 1000"
    using decimas_bounds(1,2) [OF n cx] by simp_all
  moreover have "Eventos row < Eventos row' \<longrightarrow> decimas x \<le> decimas x'"
    using assms(3,4) by (auto intro: decimas_mono)
  moreover have "39 \<le> Eventos row \<longrightarrow>
       decimas x = 1000 \<and> fmt_1f (x * 100) = ''100.0'' \<and> Probabilidad row = ''100.0%''"
    unfolding e using cx by (auto simp: row decimas_1000 fmt_1f_100 Probabilidad_100)
  ultimately show ?thesis by blast
qed

theorem C10_reported_percentage_witness:
  "fila_de (''Sismo'', 39) \<in> set (filas (resumen_probabilidades df_muchos 2026)) \<and>
   fila_de (''Flood'', 40) \<in> set (filas (resumen_probabilidades df_muchos 2026)) \<and>
   cerca (probabilidad_poisson (real 39 / 5)) (Eventos (fila_de (''Sismo'', 39))) \<and>
   cerca (probabilidad_poisson (real 40 / 5)) (Eventos (fila_de (''Flood'', 40))) \<and>
   166 \<le> decimas (probabilidad_poisson (real 39 / 5)) \<and>
   decimas (probabilidad_poisson (real 39 / 5)) \<le> decimas (probabilidad_poisson (real 40 / 5)) \<and>
   decimas (probabilidad_poisson (real 39 / 5)) = 1000 \<and>
   fmt_1f (probabilidad_poisson (real 39 / 5) * 100) = ''100.0''"
proof -
  have c: "cerca (probabilidad_poisson (real 39 / 5)) (Eventos (fila_de (''Sismo'', 39)))"
    "cerca (probabilidad_poisson (real 40 / 5)) (Eventos (fila_de (''Flood'', 40)))"
    unfolding Eventos_fila_de by (rule cerca_exact)+
  show ?thesis
    using df_muchos_rows c C10_reported_percentage [OF df_muchos_rows c]
    by (simp add: Eventos_fila_de str_nat_100 digit_char_0)
qed

section \<open>C8: the report filter\<close>

lemma count_list_filter:
  "count_list (filter P xs) r = (if P r then count_list xs r else 0)"
  by (induction xs) auto

text \<open>
  C8. For every frame and every selection of categories and years, \<^verbatim>\<open>filtrado\<close>
  holds exactly the records of the frame whose category is among the selected
  categories and whose year is among the selected years: the same records,
  unchanged in every field, in the order of the frame and as many times as they
  occur there. A selection of categories none of which occurs in the frame
  gives the empty frame.
\<close>

theorem C8_filter:
  "(\<forall>r. r \<in> set (filtrado df tipo_sel anio_sel) \<longleftrightarrow>
        r \<in> set df \<and> tipo r \<in> set tipo_sel \<and> dt_year (fecha r) \<in> set anio_sel) \<and>
   subseq (filtrado df tipo_sel anio_sel) df \<and>
   (\<forall>r. count_list (filtrado df tipo_sel anio_sel) r =
        (if tipo r \<in> set tipo_sel \<and> dt_year (fecha r) \<in> set anio_sel
         then count_list df r else 0)) \<and>
   (set tipo_sel \<inter> tipo ` set df = {} \<longrightarrow> filtrado df tipo_sel anio_sel = [])"
proof (intro conjI)
  show "\<forall>r. r \<in> set (filtrado df tipo_sel anio_sel) \<longleftrightarrow>
        r \<in> set df \<and> tipo r \<in> set tipo_sel \<and> dt_year (fecha r) \<in> set anio_sel"
    by (auto simp: filtrado_def)
  show "subseq (filtrado df tipo_sel anio_sel) df"
    by (simp add: filtrado_def)
  show "\<forall>r. count_list (filtrado df tipo_sel anio_sel) r =
        (if tipo r \<in> set tipo_sel \<and> dt_year (fecha r) \<in> set anio_sel
         then count_list df r else 0)"
    by (simp add: filtrado_def count_list_filter)
  show "set tipo_sel \<inter> tipo ` set df = {} \<longrightarrow> filtrado df tipo_sel anio_sel = []"
    by (auto simp: filtrado_def filter_empty_conv)
qed

theorem C8_filter_witness:
  "filtrado [fila_ej 1 2024 ''Flood'', fila_ej 2 2025 ''Sismo''] [''Derrumbe''] [Some 2024, Some 2025]
     = [] \<and>
   fila_ej 1 2024 ''Flood'' \<in>
     set (filtrado [fila_ej 1 2024 ''Flood'', fila_ej 2 2025 ''Sismo''] [''Flood''] [Some 2024])"
proof -
  let ?df = "[fila_ej 1 2024 ''Flood'', fila_ej 2 2025 ''Sismo'']"
  have h: "set [''Derrumbe''] \<inter> tipo ` set ?df = {}"
    by (simp add: fila_ej_def)
  from C8_filter [of ?df "[''Derrumbe'']" "[Some 2024, Some 2025]"]
  have "set [''Derrumbe''] \<inter> tipo ` set ?df = {} \<longrightarrow>
      filtrado ?df [''Derrumbe''] [Some 2024, Some 2025] = []"
    by (elim conjE)
  with h have a: "filtrado ?df [''Derrumbe''] [Some 2024, Some 2025] = []"
    by (rule rev_mp)
  from C8_filter [of ?df "[''Flood'']" "[Some 2024]"]
  have "\<forall>r. r \<in> set (filtrado ?df [''Flood''] [Some 2024]) \<longleftrightarrow>
        r \<in> set ?df \<and> tipo r \<in> set [''Flood''] \<and> dt_year (fecha r) \<in> set [Some 2024]"
    by (elim conjE)
  then have b: "fila_ej 1 2024 ''Flood'' \<in> set (filtrado ?df [''Flood''] [Some 2024])"
    by (simp add: fila_ej_def dt_year_def)
  from a b show ?thesis by (rule conjI)
qed

section \<open>The map renderer: C5 and C7\<close>

lemma render_row_skip: "lat row = None \<or> lon row = None \<Longrightarrow> render_row row = Inr None"
  by (auto simp: render_row_def split: option.splits)

lemma render_row_raise:
  "lat row = Some la \<Longrightarrow> lon row = Some lo \<Longrightarrow> impacto row = None \<Longrightarrow>
   render_row row = Inl TypeError"
  by (simp add: render_row_def)

lemma render_row_marker:
  "lat row = Some la \<Longrightarrow> lon row = Some lo \<Longrightarrow> impacto row = Some imp \<Longrightarrow>
   render_row row = Inr (Some (marcador row la lo imp))"
  by (simp add: render_row_def)

text \<open>
  On a frame in which every row with both coordinates has an impact text the
  loop ends, with one marker for each such row and none for the others.
\<close>

lemma render_map_ok:
  assumes "\<forall>r \<in> set df. lat r \<noteq> None \<and> lon r \<noteq> None \<longrightarrow> impacto r \<noteq> None"
  shows "render_map df mapa =
    Inr (mapa @ map (\<lambda>r. marcador r (the (lat r)) (the (lon r)) (the (impacto r)))
                  (filter (\<lambda>r. lat r \<noteq> None \<and> lon r \<noteq> None) df))"
  using assms
proof (induction df arbitrary: mapa)
  case Nil
  then show ?case by simp
next
  case (Cons row df)
  show ?case
  proof (cases "lat row \<noteq> None \<and> lon row \<noteq> None")
    case True
    then obtain la lo imp where c: "lat row = Some la" "lon row = Some lo" "impacto row = Some imp"
      using Cons.prems by auto
    with Cons show ?thesis
      by (simp add: render_row_marker [OF c])
  next
    case False
    then have "render_row row = Inr None"
      by (auto intro: render_row_skip)
    with False Cons show ?thesis by auto
  qed
qed

text \<open>The loop raises exactly when some row has both coordinates and no impact text.\<close>

lemma render_map_raises:
  "(\<exists>e. render_map df mapa = Inl e) \<longleftrightarrow>
   (\<exists>r \<in> set df. lat r \<noteq> None \<and> lon r \<noteq> None \<and> impacto r = None)"
proof (induction df arbitrary: mapa)
  case Nil
  then show ?case by simp
next
  case (Cons row df)
  show ?case
  proof (cases "render_row row")
    case (Inl e)
    then show ?thesis
      by (auto simp: render_row_def split: option.splits)
  next
    case (Inr m)
    then have "\<not> (lat row \<noteq> None \<and> lon row \<noteq> None \<and> impacto row = None)"
      by (auto simp: render_row_def split: option.splits)
    with Inr Cons show ?thesis
      by (cases m) auto
  qed
qed

lemma radius_marcador: "radius (marcador row la lo imp) = 6 + gravedad row"
  by (simp add: marcador_def)

lemma color_marcador:
  "color (marcador row la lo imp) = (if 4 \<le> gravedad row then ''red'' else ''orange'')"
  by (simp add: marcador_def)

text \<open>
  C5. The claim is that every consumer of the loaded frame completes when an
  optional cell (latitude, longitude, place, impact, source, notes) is
  \<^verbatim>\<open>NULL\<close>. The map tab does so for a row without coordinates, whatever else the
  row lacks; for a row that has both coordinates and no impact text it raises
  \<^verbatim>\<open>TypeError\<close>.
\<close>

theorem C5_null_impact_raises:
  "tab_mapa [fila_sin_coordenadas 1] = Inr (Some []) \<and>
   impacto (fila_sin_impacto 1 3) = None \<and>
   tab_mapa [fila_sin_impacto 1 3] = Inl TypeError"
  by (simp add: tab_mapa_def render_row_def fila_sin_coordenadas_def fila_sin_impacto_def
      fila_ej_def)

text \<open>
  C7. The claim is that a record gets a marker if and only if it has both
  coordinates. A record of severity 5 with both coordinates and no impact text
  gets none: the loop raises on it, after the marker of the record before it.
\<close>

theorem C7_marker_missing:
  "lat (fila_sin_impacto 2 5) = Some (51 / 2) \<and>
   lon (fila_sin_impacto 2 5) = Some (- 207 / 2) \<and>
   (\<exists>m. render_map [fila_ej 1 2024 ''Flood''] [] = Inr [m]) \<and>
   render_map [fila_ej 1 2024 ''Flood'', fila_sin_impacto 2 5] [] = Inl TypeError"
  by (simp add: render_row_def fila_sin_impacto_def fila_ej_def)

section \<open>C4: the write-permission flag\<close>

lemma allow_write_None: "allow_write None"
  by (simp add: allow_write_def lower_char_def)

lemma allow_write_false: "\<not> allow_write (Some ''false'')"
  by (simp add: allow_write_def)

text \<open>Whatever the flag and whatever is pressed, a run of the tab ends in the exception.\<close>

lemma tab_registro_raises:
  "resultado (tab_registro secret f p118 p121 p126 d) = Inl StreamlitAPIException"
  by (simp add: tab_registro_def form_submit_button_def)

text \<open>
  C4. The claim is one submit action, gated by the flag, with writing allowed
  when the flag is absent. With the flag absent \<^verbatim>\<open>allow_write\<close> is true, and the
  tab then runs only the \<^verbatim>\<open>else\<close> branch of line 125: no form, no enabled
  control, nothing written. With the flag set to \<^verbatim>\<open>false\<close> the tab builds the
  form and puts the enabled submit control of line 118 on the page.
\<close>

theorem C4_gate_inverted:
  "allow_write None \<and>
   tab_registro None form_ej True True True (crear_db None) =
     \<lparr>botones = [], resultado = Inl StreamlitAPIException\<rparr> \<and>
   \<not> allow_write (Some ''false'') \<and>
   tab_registro (Some ''false'') form_ej True True True (crear_db None) =
     \<lparr>botones = [(118, False)], resultado = Inl StreamlitAPIException\<rparr>"
  using allow_write_None allow_write_false
  by (simp add: tab_registro_def form_submit_button_def)

section \<open>C6: what is checked before an insert\<close>

text \<open>
  C6 as stated fails: a date text that is no date, a latitude of 100, a longitude
  of -200 and a severity of 9 are written as they are.
\<close>

theorem C6_invalid_input_written:
  "parse_iso ''ayer'' = None \<and> \<not> (100 \<le> (90 :: real)) \<and> \<not> (- 180 \<le> (- 200 :: real)) \<and>
   \<not> (9 \<le> (5 :: int)) \<and>
   agregar_suceso ''ayer'' ''Sismo'' None None (Some 100) (Some (- 200)) 9 None None None
       (crear_db None) =
     Inr \<lparr>sucesos = [\<lparr>id_suceso = 1, fecha = ''ayer'', tipo = ''Sismo'', subtipo = None,
                      lugar = None, lat = Some 100, lon = Some (- 200), gravedad = 9,
                      impacto = None, fuente = None, notas = None\<rparr>],
          seq = 1\<rparr>"
  by (simp add: parse_iso_def agregar_suceso_def crear_db_def largest_rowid_def MAX_ROWID_def)

text \<open>
  C6, amended. \<^verbatim>\<open>agregar_suceso\<close> checks no value: for every date text, every
  coordinates and every severity that fits the 64-bit column it appends one
  complete row holding the values as given, provided the key space is not used
  up; in the two remaining cases it fails and writes nothing, so no partial row
  is ever written. What the form can submit is bounded by its widgets alone: a
  calendar date and a severity from 1 to 5, with any latitude and longitude.
\<close>

theorem C6_no_validation:
  "(- (2 ^ 63) \<le> g \<and> g < 2 ^ 63 \<and> largest_rowid s < MAX_ROWID \<longrightarrow>
      agregar_suceso fe t st lu la lo g im fu no s =
        Inr \<lparr>sucesos = sucesos s @
                [\<lparr>id_suceso = largest_rowid s + 1, fecha = fe, tipo = t, subtipo = st,
                  lugar = lu, lat = la, lon = lo, gravedad = g, impacto = im, fuente = fu,
                  notas = no\<rparr>],
             seq = largest_rowid s + 1\<rparr>) \<and>
   (\<not> (- (2 ^ 63) \<le> g \<and> g < 2 ^ 63 \<and> largest_rowid s < MAX_ROWID) \<longrightarrow>
      (\<exists>e. agregar_suceso fe t st lu la lo g im fu no s = Inl e)) \<and>
   (form_ok f \<and> largest_rowid s < MAX_ROWID \<longrightarrow>
      guardar f s =
        Inr \<lparr>sucesos = sucesos s @
                [\<lparr>id_suceso = largest_rowid s + 1, fecha = str_date (f_fecha f),
                  tipo = f_tipo f, subtipo = Some (f_subtipo f), lugar = Some (f_lugar f),
                  lat = Some (f_lat f), lon = Some (f_lon f), gravedad = f_gravedad f,
                  impacto = Some (f_impacto f), fuente = Some (f_fuente f),
                  notas = Some (f_notas f)\<rparr>],
             seq = largest_rowid s + 1\<rparr>)"
  by (auto simp: agregar_suceso_def guardar_def form_ok_def)

theorem C6_no_validation_witness:
  "form_ok (form_ej\<lparr>f_lat := 100, f_lon := - 200\<rparr>) \<and>
   guardar (form_ej\<lparr>f_lat := 100, f_lon := - 200\<rparr>) (crear_db None) =
     Inr \<lparr>sucesos = [\<lparr>id_suceso = 1, fecha = str_date \<lparr>year = 2024, month = 2, day = 29\<rparr>,
                      tipo = ''Sismo'', subtipo = Some ''temblor'', lugar = Some ''Torreon'',
                      lat = Some 100, lon = Some (- 200), gravedad = 3,
                      impacto = Some ''sin danos'', fuente = Some [], notas = Some []\<rparr>],
          seq = 1\<rparr>"
proof -
  let ?f = "form_ej\<lparr>f_lat := 100, f_lon := - 200\<rparr>"
  have h: "form_ok ?f \<and> largest_rowid (crear_db None) < MAX_ROWID"
    by (simp add: form_ok_def form_ej_def valid_date_def days_in_month_def is_leap_def
        largest_rowid_def crear_db_def MAX_ROWID_def)
  have "form_ok ?f \<and> largest_rowid (crear_db None) < MAX_ROWID \<longrightarrow>
      guardar ?f (crear_db None) =
        Inr \<lparr>sucesos = sucesos (crear_db None) @
                [\<lparr>id_suceso = largest_rowid (crear_db None) + 1,
                  fecha = str_date (f_fecha ?f),
                  tipo = f_tipo ?f, subtipo = Some (f_subtipo ?f), lugar = Some (f_lugar ?f),
                  lat = Some (f_lat ?f), lon = Some (f_lon ?f), gravedad = f_gravedad ?f,
                  impacto = Some (f_impacto ?f), fuente = Some (f_fuente ?f),
                  notas = Some (f_notas ?f)\<rparr>],
             seq = largest_rowid (crear_db None) + 1\<rparr>"
    by (rule C6_no_validation [THEN conjunct2, THEN conjunct2])
  with h have "guardar ?f (crear_db None) =
        Inr \<lparr>sucesos = sucesos (crear_db None) @
                [\<lparr>id_suceso = largest_rowid (crear_db None) + 1,
                  fecha = str_date (f_fecha ?f),
                  tipo = f_tipo ?f, subtipo = Some (f_subtipo ?f), lugar = Some (f_lugar ?f),
                  lat = Some (f_lat ?f), lon = Some (f_lon ?f), gravedad = f_gravedad ?f,
                  impacto = Some (f_impacto ?f), fuente = Some (f_fuente ?f),
                  notas = Some (f_notas ?f)\<rparr>],
             seq = largest_rowid (crear_db None) + 1\<rparr>"
    by (rule rev_mp)
  then show ?thesis
    using h by (simp add: form_ej_def largest_rowid_def crear_db_def)
qed

end
